theory Spec2Isabelle
  imports Complex_Main "HOL-Library.Sublist"
begin

section \<open>JavaScript arrays\<close>



text \<open>\<open>ids.join(", ")\<close>\<close>

fun join :: "string \<Rightarrow> string list \<Rightarrow> string" where
  "join sep [] = []"
| "join sep [x] = x"
| "join sep (x # y # ys) = x @ sep @ join sep (y # ys)"

section \<open>The extension context (ExtensionContextImpl)\<close>

type_synonym addr = nat

text \<open>The field \<open>when\<close> is written \<open>when'\<close>.\<close>

record ExtensionCommandContribution =
  command :: string
  title :: string
  category :: string
  order :: int
  when' :: string
  icon :: string

text \<open>The keys of \<open>ExtensionMenusContribution\<close>, as \<open>startUpSessions\<close> names them.\<close>

datatype MenuType = contextMenu | commandPalette | emptyPane | newTerminal | windowMenu

text \<open>
  An entry of \<open>_commandToMenuEntryMap\<close>: the contribution it belongs to and one boolean per
  menu type; \<open>entry[menuType] = on\<close> writes one of them.
\<close>

record CommandMenuEntry =
  commandContribution :: addr
  menuFlags :: "MenuType \<Rightarrow> bool"

text \<open>
  Modelled from the spec: the class \<open>CommandsRegistry\<close> is not among the sources. The
  sources read its field \<open>_commandToMenuEntryMap\<close> (a map from a command id to a list of
  entries) and call \<open>getCommandFunction\<close>, \<open>registerCommand\<close> and
  \<open>registerCommandContribution\<close>. The spec gives it a map from command ids to handlers
  and a map from command ids to entry lists ("two internal maps"). A handler is either a
  function given to \<open>registerCommand\<close> or the registration made for a contribution.
\<close>

datatype CommandFunction = RegisteredFunction nat | ContributionFunction addr

record CommandsRegistry =
  commandToFunctionMap :: "string \<rightharpoonup> CommandFunction"
  commandToMenuEntryMap :: "string \<rightharpoonup> CommandMenuEntry list"

text \<open>
  Modelled from the spec: \<open>getCommandFunction(id) -> handler | null\<close>, of the missing class
  \<open>CommandsRegistry\<close>; \<open>None\<close> is null.
\<close>

definition getCommandFunction ::
  "CommandsRegistry \<Rightarrow> string \<Rightarrow> CommandFunction option" where
  "getCommandFunction r n = commandToFunctionMap r n"


record 'css TabTitleWidgetContribution =
  name :: string
  css :: 'css

text \<open>
  The element \<open>document.createElement(ExtensionContainerElement.TAG_NAME)\<close> returns, after
  \<open>_setExtensionContext(this)\<close> and \<open>_setExtensionCss(contrib.css)\<close>. Every call of
  \<open>createElement\<close> gives a new element: \<open>elementId\<close> is its identity.
\<close>

record 'css ExtensionContainerElement =
  elementId :: nat
  extensionContext :: string
  extensionCss :: 'css

datatype js_error = Error string | TypeError

text \<open>
  The state an \<open>ExtensionContextImpl\<close> reads and writes. \<open>objects\<close> is the store of
  contribution objects, \<open>contributes_commands\<close> the list
  \<open>_extensionMetadata.contributes.commands\<close> of references into it.
  \<open>registrationChangedCalls\<close> has one entry per call of
  \<open>_extensionManager.commandRegistrationChanged()\<close>: the metadata command list and the
  registry as they stood at the call, which is what a subscriber that queries the commands
  again finds then. \<open>logger_warn\<close> collects the messages given to \<open>this.logger.warn\<close>,
  \<open>factoryCalls\<close> the calls of tab title widget factories (factory, terminal, container).
\<close>

record ('css, 'f, 't) ExtensionContextImpl =
  extensionName :: string
  objects :: "addr \<Rightarrow> ExtensionCommandContribution"
  contributes_commands :: "addr list"
  contributes_tabTitleWidgets :: "'css TabTitleWidgetContribution list"
  commands :: CommandsRegistry
  tabTitleWidgetFactoryMap :: "string \<rightharpoonup> 'f"
  logger_warn :: "string list"
  registrationChangedCalls :: "(addr list \<times> CommandsRegistry) list"
  createdElements :: nat
  factoryCalls :: "('f \<times> 't \<times> nat) list"

definition quote :: string where
  "quote = [CHR 0x27]"

definition backend_message :: string where
  "backend_message =
     quote @ ''ExtensionContext.backend'' @ quote @ '' is not available from a render process.''"

text \<open>The getter \<open>backend\<close>: its return type is \<open>never\<close>.\<close>

definition backend ::
  "('css, 'f, 't) ExtensionContextImpl \<Rightarrow> ('css, 'f, 't) ExtensionContextImpl \<times> (js_error + unit)" where
  "backend s = (s\<lparr>logger_warn := logger_warn s @ [backend_message]\<rparr>, Inl (Error backend_message))"

text \<open>\<open>_setCommandMenu\<close>\<close>

definition ctx_setCommandMenu ::
  "('css, 'f, 't) ExtensionContextImpl \<Rightarrow> string \<Rightarrow> MenuType \<Rightarrow> bool
     \<Rightarrow> ('css, 'f, 't) ExtensionContextImpl" where
  "ctx_setCommandMenu s cmd menuType on =
     (case commandToMenuEntryMap (commands s) cmd of
        None \<Rightarrow> s
      | Some entryList \<Rightarrow>
          s\<lparr>commands := (commands s)\<lparr>commandToMenuEntryMap :=
              (commandToMenuEntryMap (commands s))
                (cmd \<mapsto> map (\<lambda>entry. entry\<lparr>menuFlags := (menuFlags entry)(menuType := on)\<rparr>)
                              entryList)\<rparr>\<rparr>)"

text \<open>\<open>_registerTabTitleWidget\<close>: the loop over the metadata, then the warning.\<close>

definition unknown_widget_message :: "string \<Rightarrow> string" where
  "unknown_widget_message n =
     ''Unknown tab title widget '' @ quote @ n @ quote @ '' given to registerTabTitleWidget().''"

fun registerTabTitleWidget_for ::
  "'css TabTitleWidgetContribution list \<Rightarrow> ('css, 'f, 't) ExtensionContextImpl \<Rightarrow> string \<Rightarrow> 'f
     \<Rightarrow> ('css, 'f, 't) ExtensionContextImpl" where
  "registerTabTitleWidget_for [] s n factory =
     s\<lparr>logger_warn := logger_warn s @ [unknown_widget_message n]\<rparr>"
| "registerTabTitleWidget_for (data # rest) s n factory =
     (if name data = n
      then s\<lparr>tabTitleWidgetFactoryMap := (tabTitleWidgetFactoryMap s)(n \<mapsto> factory)\<rparr>
      else registerTabTitleWidget_for rest s n factory)"

definition ctx_registerTabTitleWidget ::
  "('css, 'f, 't) ExtensionContextImpl \<Rightarrow> string \<Rightarrow> 'f \<Rightarrow> ('css, 'f, 't) ExtensionContextImpl" where
  "ctx_registerTabTitleWidget s n factory =
     registerTabTitleWidget_for (contributes_tabTitleWidgets s) s n factory"

text \<open>
  \<open>_createTabTitleWidgets\<close>: the loop with its accumulator \<open>result\<close>. A factory is a
  callback of the extension; its call is recorded and its result is not used.
\<close>

fun createTabTitleWidgets_for ::
  "'css TabTitleWidgetContribution list \<Rightarrow> ('css, 'f, 't) ExtensionContextImpl \<Rightarrow> 't
     \<Rightarrow> 'css ExtensionContainerElement list
     \<Rightarrow> ('css, 'f, 't) ExtensionContextImpl \<times> 'css ExtensionContainerElement list" where
  "createTabTitleWidgets_for [] s terminal result = (s, result)"
| "createTabTitleWidgets_for (contrib # rest) s terminal result =
     (case tabTitleWidgetFactoryMap s (name contrib) of
        None \<Rightarrow> createTabTitleWidgets_for rest s terminal result
      | Some factory \<Rightarrow>
          (let extensionContainerElement =
                 \<lparr>elementId = createdElements s, extensionContext = extensionName s,
                  extensionCss = css contrib\<rparr>;
               s' = s\<lparr>createdElements := createdElements s + 1,
                      factoryCalls := factoryCalls s @ [(factory, terminal, createdElements s)]\<rparr>
           in createTabTitleWidgets_for rest s' terminal (result @ [extensionContainerElement])))"

definition ctx_createTabTitleWidgets ::
  "('css, 'f, 't) ExtensionContextImpl \<Rightarrow> 't
     \<Rightarrow> ('css, 'f, 't) ExtensionContextImpl \<times> 'css ExtensionContainerElement list" where
  "ctx_createTabTitleWidgets s terminal =
     createTabTitleWidgets_for (contributes_tabTitleWidgets s) s terminal []"


section \<open>JavaScript values\<close>

text \<open>
  A number is a double: not-a-number, an infinity, or a finite value. Only comparisons,
  \<open>Math.min\<close> and \<open>Math.max\<close> are applied to numbers here, and they do not round, so a
  finite value is a real; the two zeros are one value.
\<close>

datatype jsnum = NaN | NegInf | Fin real | PosInf

text \<open>
  The values a configuration field or a command result can hold. Arrays and objects are JSON
  trees; \<open>Promise p\<close> is the promise object with identity \<open>p\<close>.
\<close>

datatype jsvalue =
    Undefined | Null | Bool bool | Num jsnum | Str string
  | Array "jsvalue list" | Object "(string \<times> jsvalue) list" | Promise nat

fun typeof :: "jsvalue \<Rightarrow> string" where
  "typeof Undefined = ''undefined''"
| "typeof Null = ''object''"
| "typeof (Bool b) = ''boolean''"
| "typeof (Num n) = ''number''"
| "typeof (Str s) = ''string''"
| "typeof (Array xs) = ''object''"
| "typeof (Object fs) = ''object''"
| "typeof (Promise p) = ''object''"

text \<open>\<open>v == null\<close>\<close>

definition eq_null :: "jsvalue \<Rightarrow> bool" where
  "eq_null v = (v = Undefined \<or> v = Null)"

text \<open>Truthiness, for \<open>a || b\<close>.\<close>

fun truthy :: "jsvalue \<Rightarrow> bool" where
  "truthy Undefined = False"
| "truthy Null = False"
| "truthy (Bool b) = b"
| "truthy (Num n) = (n \<noteq> NaN \<and> n \<noteq> Fin 0)"
| "truthy (Str s) = (s \<noteq> [])"
| "truthy (Array xs) = True"
| "truthy (Object fs) = True"
| "truthy (Promise p) = True"

definition js_or :: "jsvalue \<Rightarrow> jsvalue \<Rightarrow> jsvalue" where
  "js_or a b = (if truthy a then a else b)"

fun Math_min :: "jsnum \<Rightarrow> jsnum \<Rightarrow> jsnum" where
  "Math_min NaN y = NaN"
| "Math_min x NaN = NaN"
| "Math_min NegInf y = NegInf"
| "Math_min x NegInf = NegInf"
| "Math_min PosInf y = y"
| "Math_min x PosInf = x"
| "Math_min (Fin a) (Fin b) = Fin (min a b)"

fun Math_max :: "jsnum \<Rightarrow> jsnum \<Rightarrow> jsnum" where
  "Math_max NaN y = NaN"
| "Math_max x NaN = NaN"
| "Math_max PosInf y = PosInf"
| "Math_max x PosInf = PosInf"
| "Math_max NegInf y = y"
| "Math_max x NegInf = x"
| "Math_max (Fin a) (Fin b) = Fin (max a b)"

text \<open>
  The conversion \<open>Math.min\<close> and \<open>Math.max\<close> apply to an argument. Its equations for
  strings, arrays and objects are left out: every argument below is a field that a
  \<open>sanitizeField\<close> with a number as default has just been applied to, hence a number.
\<close>

fun ToNumber :: "jsvalue \<Rightarrow> jsnum" where
  "ToNumber (Num n) = n"
| "ToNumber Undefined = NaN"
| "ToNumber Null = Fin 0"
| "ToNumber (Bool b) = (if b then Fin 1 else Fin 0)"

section \<open>Command execution requests and key events (the window's start-up module)\<close>

record ExecuteCommandMessage =
  commandName :: string
  args :: jsvalue
  uuid :: string

text \<open>How a call ends: it returns a value or throws one.\<close>

datatype completion = Return jsvalue | Throw jsvalue

text \<open>What becomes of a promise: \<open>await\<close> gives the value, throws the reason, or never resumes.\<close>

datatype settlement = Resolved jsvalue | Rejected jsvalue | Pending

text \<open>
  The \<open>ExtensionManager\<close> is an interface here; its implementation is not among the
  sources, so what its methods answer is a parameter.
\<close>

record ExtensionManager =
  isInputFieldFocus :: bool
  queryCommands :: "string list \<times> string list option \<times> bool \<Rightarrow> ExtensionCommandContribution list"
  executeCommand :: "string \<Rightarrow> jsvalue \<Rightarrow> completion"

text \<open>
  Modelled from the spec: \<open>executeCommand\<close> of the missing class
  \<open>ExtensionManagerImpl\<close>. The spec says that it looks the command up in the registry of
  the context that owns it, invokes the handler and returns its result or propagates its
  failure, and that an unregistered id yields a "not found" error. The manager has one
  registry per extension context; \<open>invoke\<close> is what a handler does when it is called.
\<close>

fun lookupCommandFunction :: "CommandsRegistry list \<Rightarrow> string \<Rightarrow> CommandFunction option" where
  "lookupCommandFunction [] cmd = None"
| "lookupCommandFunction (registry # registries) cmd =
     (case getCommandFunction registry cmd of
        Some handler \<Rightarrow> Some handler
      | None \<Rightarrow> lookupCommandFunction registries cmd)"

text \<open>
  Modelled from the spec: the "not found" error of \<open>executeCommand\<close>, an \<open>Error\<close>
  object; the spec does not give its message.
\<close>

definition notFoundError :: "string \<Rightarrow> jsvalue" where
  "notFoundError cmd =
     Object [(''name'', Str ''Error''),
             (''message'', Str (''Command '' @ [CHR 0x27] @ cmd @ [CHR 0x27] @ '' not found''))]"

text \<open>
  Modelled from the spec: \<open>executeCommand(id, args)\<close> of the missing class
  \<open>ExtensionManagerImpl\<close>, as described above.
\<close>

definition managerExecuteCommand ::
  "CommandsRegistry list \<Rightarrow> (CommandFunction \<Rightarrow> jsvalue \<Rightarrow> completion)
     \<Rightarrow> string \<Rightarrow> jsvalue \<Rightarrow> completion" where
  "managerExecuteCommand registries invoke cmd cmdArgs =
     (case lookupCommandFunction registries cmd of
        None \<Rightarrow> Throw (notFoundError cmd)
      | Some handler \<Rightarrow> invoke handler cmdArgs)"

text \<open>The call \<open>WebIpc.commandResponse(uuid, result, exception)\<close>.\<close>

datatype ipc = commandResponse string jsvalue jsvalue

text \<open>
  \<open>handleExecuteCommand\<close>. \<open>None\<close>: the awaited promise never settles, and nothing is
  sent. \<open>Some (Inl e)\<close>: the promise the function returns is rejected with \<open>e\<close>.
  \<open>Some (Inr m)\<close>: \<open>m\<close> is sent. When the awaited promise is rejected, \<open>result\<close> still
  holds the promise: the assignment \<open>result = await result\<close> has not happened.
\<close>

definition handleExecuteCommand ::
  "ExtensionManager \<Rightarrow> (nat \<Rightarrow> settlement) \<Rightarrow> ExecuteCommandMessage \<Rightarrow> (jsvalue + ipc) option" where
  "handleExecuteCommand extensionManager promises msg =
     (case executeCommand extensionManager (commandName msg) (args msg) of
        Throw ex \<Rightarrow> Some (Inr (commandResponse (uuid msg) Null ex))
      | Return result \<Rightarrow>
          (case result of
             Promise p \<Rightarrow>
               (case promises p of
                  Resolved v \<Rightarrow> Some (Inr (commandResponse (uuid msg) v Null))
                | Rejected ex \<Rightarrow> Some (Inr (commandResponse (uuid msg) (Promise p) ex))
                | Pending \<Rightarrow> None)
           | _ \<Rightarrow> Some (Inr (commandResponse (uuid msg) result Null))))"

datatype KeyEffect =
    UpdateExtensionWindowStateFromEvent | Warn string | ExecuteCommand string
  | StopPropagation | PreventDefault

definition conflicting_message :: "string list \<Rightarrow> string" where
  "conflicting_message ids = ''Commands '' @ join '', '' ids @ '' have conflicting keybindings.''"

text \<open>
  \<open>handleKeyCapture\<close>: the calls it makes, in order, and how it ends (\<open>Inl\<close>: the exception
  \<open>executeCommand\<close> threw leaves the listener). The query is the triple of \<open>commands\<close>,
  \<open>categories\<close> (\<open>None\<close> is null) and \<open>when\<close>.
\<close>

definition handleKeyCapture ::
  "ExtensionManager \<Rightarrow> ('ev \<Rightarrow> string list) \<Rightarrow> 'ev \<Rightarrow> KeyEffect list \<times> (jsvalue + unit)" where
  "handleKeyCapture extensionManager mapEventToCommands ev =
     (let cmds = mapEventToCommands ev;
          effects = [UpdateExtensionWindowStateFromEvent];
          categories = (if isInputFieldFocus extensionManager
                        then Some [''application'', ''window''] else None);
          filteredCommands = queryCommands extensionManager (cmds, categories, True)
      in if length filteredCommands \<noteq> 0 then
           (let effects = (if length filteredCommands \<noteq> 1
                           then effects @ [Warn (conflicting_message (map command filteredCommands))]
                           else effects);
                effects = effects @ [ExecuteCommand (command (filteredCommands ! 0))]
            in case executeCommand extensionManager (command (filteredCommands ! 0)) Undefined of
                 Throw ex \<Rightarrow> (effects, Inl ex)
               | Return r \<Rightarrow> (effects @ [StopPropagation, PreventDefault], Inr ()))
         else (effects, Inr ()))"

section \<open>Sanitation of the stored configuration\<close>

text \<open>
  The object being sanitized: the value of each key, \<open>Undefined\<close> for a key it does not
  have. The type \<open>'k\<close> of the keys is the \<open>K extends keyof T\<close> of the sources.
  \<open>object[key] = value\<close> is \<open>assign\<close>; \<open>if (b) { object[key] = value; }\<close> is
  \<open>assignIf\<close>.
\<close>

type_synonym 'k jsobject = "'k \<Rightarrow> jsvalue"

definition emptyObject :: "'k jsobject" where
  "emptyObject = (\<lambda>key. Undefined)"

definition assign ::
  "'k jsobject \<Rightarrow> 'k \<Rightarrow> jsvalue \<Rightarrow> 'k jsobject" where
  "assign object key v = object(key := v)"

definition assignIf ::
  "bool \<Rightarrow> 'k jsobject \<Rightarrow> 'k \<Rightarrow> jsvalue \<Rightarrow> 'k jsobject" where
  "assignIf b object key v = (if b then assign object key v else object)"

definition sanitizeField ::
  "'k jsobject \<Rightarrow> 'k \<Rightarrow> jsvalue \<Rightarrow> 'k jsobject" where
  "sanitizeField object key defaultValue =
     (if eq_null (object key) \<or> typeof (object key) \<noteq> typeof defaultValue
      then assign object key defaultValue else object)"

text \<open>\<open>availableValues.includes(v)\<close> is membership: the values compared are strings.\<close>

definition sanitizeStringEnumField ::
  "'k jsobject \<Rightarrow> 'k \<Rightarrow> jsvalue list \<Rightarrow> jsvalue \<Rightarrow> 'k jsobject" where
  "sanitizeStringEnumField object key availableValues defaultValue =
     (if eq_null (object key) then assign object key defaultValue
      else if object key \<notin> set availableValues then assign object key defaultValue
      else object)"

text \<open>
  The keys of \<open>GeneralConfig\<close> that \<open>sanitizeGeneralConfig\<close> names; \<open>otherKey\<close> is any
  other key the stored object has.
\<close>

datatype GeneralConfigKey =
    autoCopySelectionToClipboard | blinkingCursor | cursorStyle
  | frameByDefault | frameRule | frameRuleLines
  | gpuDriverWorkaround | isHardwareAccelerated | keybindingsName
  | minimizeToTray | scrollbackMaxFrames | scrollbackMaxLines
  | showTips | showTrayIcon | terminalFont
  | terminalFontSize | terminalDisplayLigatures | terminalMarginStyle
  | tipCounter | tipTimestamp | titleBarStyle
  | uiScalePercent | windowBackgroundMode | windowBackgroundTransparencyPercent
  | closeWindowWhenEmpty | middleMouseButtonAction | middleMouseButtonShiftAction
  | middleMouseButtonControlAction | rightMouseButtonAction | rightMouseButtonShiftAction
  | rightMouseButtonControlAction | activeExtensions | themeTerminal
  | themeSyntax | themeGUI
  | otherKey string

text \<open>
  The keys of a \<open>SessionConfiguration\<close> that \<open>sanitizeSessionConfig\<close> names (each with
  the prefix \<open>session_\<close>), and any other key.
\<close>

datatype SessionConfigurationKey =
    session_name | session_uuid | session_type | session_initialDirectory | session_args
  | session_otherKey string

record FontInfo =
  postscriptName :: string
  path :: string

record ThemeInfo =
  themeType :: string

definition isThemeType :: "ThemeInfo option \<Rightarrow> string \<Rightarrow> bool" where
  "isThemeType themeInfo t = (case themeInfo of None \<Rightarrow> False | Some info \<Rightarrow> themeType info = t)"

text \<open>
  What \<open>sanitizeGeneralConfig\<close> reads from outside the configuration: \<open>process.platform\<close>,
  the imported constants \<open>AllLogicalKeybindingsNames\<close>, \<open>FALLBACK_TERMINAL_THEME\<close> and
  \<open>FALLBACK_SYNTAX_THEME\<close>, whose declarations are not among the sources, and
  \<open>themeManager.getTheme\<close> (\<open>None\<close> is null).
\<close>

record SanitizeEnv =
  platform :: string
  AllLogicalKeybindingsNames :: "string list"
  FALLBACK_TERMINAL_THEME :: string
  FALLBACK_SYNTAX_THEME :: string
  getTheme :: "jsvalue \<Rightarrow> ThemeInfo option"

definition DEFAULT_TERMINALFONT :: string where
  "DEFAULT_TERMINALFONT = ''LigaDejaVuSansMono''"

definition KEYBINDINGS_OSX :: string where
  "KEYBINDINGS_OSX = ''macos-style''"

definition KEYBINDINGS_PC :: string where
  "KEYBINDINGS_PC = ''pc-style''"

definition frameRules :: "jsvalue list" where
  "frameRules = [Str ''always_frame'', Str ''frame_if_lines'', Str ''never_frame'']"

definition platformKeybindings :: "SanitizeEnv \<Rightarrow> jsvalue" where
  "platformKeybindings env =
     Str (if platform env = ''darwin'' then KEYBINDINGS_OSX else KEYBINDINGS_PC)"

text \<open>
  The statements of \<open>sanitizeGeneralConfig\<close> that read the configuration again after a
  \<open>sanitizeField\<close>, each under a name of its own:

  \<^verbatim>\<open>if ( ! AllLogicalKeybindingsNames.includes(generalConfig.keybindingsName)) {
    generalConfig.keybindingsName = process.platform === "darwin" ? KEYBINDINGS_OSX : KEYBINDINGS_PC; }\<close>
\<close>

definition checkKeybindingsName ::
  "SanitizeEnv \<Rightarrow> GeneralConfigKey jsobject \<Rightarrow> GeneralConfigKey jsobject" where
  "checkKeybindingsName env generalConfig =
     assignIf (generalConfig keybindingsName \<notin> set (map Str (AllLogicalKeybindingsNames env)))
       generalConfig keybindingsName (platformKeybindings env)"

text \<open>
  \<^verbatim>\<open>if ( ! availableFonts.some( (font) => font.postscriptName === generalConfig.terminalFont)) {
    generalConfig.terminalFont = DEFAULT_TERMINALFONT; }\<close>
\<close>

definition checkTerminalFont ::
  "FontInfo list \<Rightarrow> GeneralConfigKey jsobject \<Rightarrow> GeneralConfigKey jsobject" where
  "checkTerminalFont availableFonts generalConfig =
     assignIf (\<not> list_ex (\<lambda>font. Str (postscriptName font) = generalConfig terminalFont)
                   availableFonts)
       generalConfig terminalFont (Str DEFAULT_TERMINALFONT)"

text \<open>
  \<^verbatim>\<open>generalConfig.terminalFontSize = Math.max(Math.min(1024, generalConfig.terminalFontSize), 4);\<close>
\<close>

definition clampTerminalFontSize ::
  "GeneralConfigKey jsobject \<Rightarrow> GeneralConfigKey jsobject" where
  "clampTerminalFontSize generalConfig =
     assign generalConfig terminalFontSize
       (Num (Math_max (Math_min (Fin 1024) (ToNumber (generalConfig terminalFontSize))) (Fin 4)))"

text \<open>
  \<^verbatim>\<open>generalConfig.uiScalePercent = Math.min(500, Math.max(5, generalConfig.uiScalePercent || 100));\<close>
\<close>

definition clampUiScalePercent ::
  "GeneralConfigKey jsobject \<Rightarrow> GeneralConfigKey jsobject" where
  "clampUiScalePercent generalConfig =
     assign generalConfig uiScalePercent
       (Num (Math_min (Fin 500)
               (Math_max (Fin 5)
                  (ToNumber (js_or (generalConfig uiScalePercent) (Num (Fin 100)))))))"

text \<open>
  \<^verbatim>\<open>generalConfig.windowBackgroundTransparencyPercent = Math.max(Math.min(100,
    generalConfig.windowBackgroundTransparencyPercent), 0);\<close>
\<close>

definition clampWindowBackgroundTransparencyPercent ::
  "GeneralConfigKey jsobject \<Rightarrow> GeneralConfigKey jsobject" where
  "clampWindowBackgroundTransparencyPercent generalConfig =
     assign generalConfig windowBackgroundTransparencyPercent
       (Num (Math_max
               (Math_min (Fin 100)
                  (ToNumber (generalConfig windowBackgroundTransparencyPercent)))
               (Fin 0)))"

text \<open>
  \<^verbatim>\<open>if ( ! isThemeType(themeManager.getTheme(generalConfig.themeTerminal), "terminal")) {
    generalConfig.themeTerminal = FALLBACK_TERMINAL_THEME; }\<close>
\<close>

definition checkThemeTerminal ::
  "SanitizeEnv \<Rightarrow> GeneralConfigKey jsobject \<Rightarrow> GeneralConfigKey jsobject" where
  "checkThemeTerminal env generalConfig =
     assignIf (\<not> isThemeType (getTheme env (generalConfig themeTerminal)) ''terminal'')
       generalConfig themeTerminal (Str (FALLBACK_TERMINAL_THEME env))"

text \<open>
  \<^verbatim>\<open>if ( ! isThemeType(themeManager.getTheme(generalConfig.themeSyntax), "syntax")) {
    generalConfig.themeSyntax = FALLBACK_SYNTAX_THEME; }\<close>
\<close>

definition checkThemeSyntax ::
  "SanitizeEnv \<Rightarrow> GeneralConfigKey jsobject \<Rightarrow> GeneralConfigKey jsobject" where
  "checkThemeSyntax env generalConfig =
     assignIf (\<not> isThemeType (getTheme env (generalConfig themeSyntax)) ''syntax'')
       generalConfig themeSyntax (Str (FALLBACK_SYNTAX_THEME env))"

text \<open>
  \<^verbatim>\<open>if (generalConfig.themeGUI === "default"
      || ! isThemeType(themeManager.getTheme(generalConfig.themeGUI), "gui")) {
    generalConfig.themeGUI = "two-dark-ui"; }\<close>
\<close>

definition checkThemeGUI ::
  "SanitizeEnv \<Rightarrow> GeneralConfigKey jsobject \<Rightarrow> GeneralConfigKey jsobject" where
  "checkThemeGUI env generalConfig =
     assignIf (generalConfig themeGUI = Str ''default''
               \<or> \<not> isThemeType (getTheme env (generalConfig themeGUI)) ''gui'')
       generalConfig themeGUI (Str ''two-dark-ui'')"

text \<open>
  \<open>sanitizeGeneralConfig\<close>, statement by statement (the statements above by their
  names); the result is the object given to \<open>configDatabase.setGeneralConfig\<close>. The second
  argument is \<open>configDatabase.getGeneralConfigCopy()\<close>: an object by its declared type, or
  \<open>None\<close> when it is null or undefined.
\<close>

definition sanitizeGeneralConfig ::
  "SanitizeEnv \<Rightarrow> GeneralConfigKey jsobject option \<Rightarrow> FontInfo list
     \<Rightarrow> GeneralConfigKey jsobject" where
  "sanitizeGeneralConfig env generalConfigCopy availableFonts =
     (let generalConfig = (case generalConfigCopy of None \<Rightarrow> emptyObject | Some c \<Rightarrow> c);
          configCursorStyles = [Str ''block'', Str ''underscore'', Str ''beam''];
          generalConfig = sanitizeField generalConfig autoCopySelectionToClipboard (Bool True);
          generalConfig = sanitizeField generalConfig blinkingCursor (Bool False);
          generalConfig = sanitizeStringEnumField generalConfig cursorStyle configCursorStyles
                            (Str ''block'');
          generalConfig = sanitizeField generalConfig frameByDefault (Bool True);
          generalConfig = sanitizeStringEnumField generalConfig frameRule frameRules
                            (Str ''frame_if_lines'');
          generalConfig = sanitizeField generalConfig frameRuleLines (Num (Fin 10));
          generalConfig = sanitizeStringEnumField generalConfig gpuDriverWorkaround
                            [Str ''none'', Str ''no_blend''] (Str ''none'');
          generalConfig = sanitizeField generalConfig isHardwareAccelerated (Bool True);
          generalConfig = assign generalConfig isHardwareAccelerated (Bool True);
          generalConfig = sanitizeField generalConfig keybindingsName (platformKeybindings env);
          generalConfig = checkKeybindingsName env generalConfig;
          generalConfig = sanitizeField generalConfig minimizeToTray (Bool False);
          generalConfig = sanitizeField generalConfig scrollbackMaxFrames (Num (Fin 100));
          generalConfig = sanitizeField generalConfig scrollbackMaxLines (Num (Fin 500000));
          generalConfig = sanitizeStringEnumField generalConfig showTips
                            [Str ''always'', Str ''daily'', Str ''never''] (Str ''always'');
          generalConfig = sanitizeField generalConfig showTrayIcon (Bool False);
          generalConfig = sanitizeField generalConfig terminalFont (Str DEFAULT_TERMINALFONT);
          generalConfig = checkTerminalFont availableFonts generalConfig;
          generalConfig = sanitizeField generalConfig terminalFontSize (Num (Fin 13));
          generalConfig = clampTerminalFontSize generalConfig;
          generalConfig = sanitizeField generalConfig terminalDisplayLigatures (Bool True);
          marginStyles = [Str ''normal'', Str ''none'', Str ''thick'', Str ''thin''];
          generalConfig = sanitizeStringEnumField generalConfig terminalMarginStyle marginStyles
                            (Str ''normal'');
          generalConfig = sanitizeField generalConfig tipCounter (Num (Fin 0));
          generalConfig = sanitizeField generalConfig tipTimestamp (Num (Fin 0));
          titleBarStyles = [Str ''compact'', Str ''native'', Str ''theme''];
          generalConfig = sanitizeStringEnumField generalConfig titleBarStyle titleBarStyles
                            (Str ''compact'');
          generalConfig = sanitizeField generalConfig uiScalePercent (Num (Fin 100));
          generalConfig = clampUiScalePercent generalConfig;
          windowBackgroundModes = [Str ''opaque'', Str ''blur''];
          generalConfig = sanitizeStringEnumField generalConfig windowBackgroundMode
                            windowBackgroundModes (Str ''opaque'');
          generalConfig = sanitizeField generalConfig windowBackgroundTransparencyPercent
                            (Num (Fin 50));
          generalConfig = clampWindowBackgroundTransparencyPercent generalConfig;
          generalConfig = sanitizeField generalConfig closeWindowWhenEmpty (Bool True);
          generalConfig = sanitizeField generalConfig middleMouseButtonAction (Str ''paste'');
          generalConfig = sanitizeField generalConfig middleMouseButtonShiftAction (Str ''paste'');
          generalConfig = sanitizeField generalConfig middleMouseButtonControlAction
                            (Str ''paste'');
          generalConfig = sanitizeField generalConfig rightMouseButtonAction
                            (Str ''context_menu'');
          generalConfig = sanitizeField generalConfig rightMouseButtonShiftAction
                            (Str ''context_menu'');
          generalConfig = sanitizeField generalConfig rightMouseButtonControlAction
                            (Str ''context_menu'');
          generalConfig = sanitizeField generalConfig activeExtensions (Object []);
          generalConfig = sanitizeField generalConfig themeTerminal
                            (Str (FALLBACK_TERMINAL_THEME env));
          generalConfig = checkThemeTerminal env generalConfig;
          generalConfig = sanitizeField generalConfig themeSyntax
                            (Str (FALLBACK_SYNTAX_THEME env));
          generalConfig = checkThemeSyntax env generalConfig;
          generalConfig = sanitizeField generalConfig themeGUI (Str ''two-dark-ui'');
          generalConfig = checkThemeGUI env generalConfig
      in generalConfig)"

text \<open>
  \<open>sanitizeSessionConfig\<close>. The stored value is null or undefined, something that is not an
  array, or an array; an element of the array is a session configuration object or null
  (\<open>None\<close>), which the declared element type admits and a stored list can hold. Elements
  of other kinds (numbers, strings) are not modelled.
\<close>

datatype 'a copy = Nullish | NotArray | ArrayOf "'a list"

text \<open>
  The body of the loop, for one element. Reading \<open>object[key]\<close> of null throws a
  \<open>TypeError\<close>: it is the first thing \<open>sanitizeField(sessionConfiguration, "name", "")\<close>
  does. The argument \<open>newUuid\<close> is what \<open>createUuid()\<close> returns in this round.
\<close>

definition sanitizeSessionConfiguration ::
  "string \<Rightarrow> SessionConfigurationKey jsobject option
     \<Rightarrow> js_error + SessionConfigurationKey jsobject" where
  "sanitizeSessionConfiguration newUuid element =
     (case element of
        None \<Rightarrow> Inl TypeError
      | Some sessionConfiguration \<Rightarrow>
          (let sessionConfiguration = sanitizeField sessionConfiguration session_name (Str []);
               sessionConfiguration = sanitizeField sessionConfiguration session_uuid (Str newUuid);
               sessionConfiguration =
                 assignIf (typeof (sessionConfiguration session_type) \<noteq> ''string'')
                   sessionConfiguration session_type (Str []);
               sessionConfiguration =
                 assignIf (eq_null (sessionConfiguration session_initialDirectory)
                           \<or> typeof (sessionConfiguration session_initialDirectory) \<noteq> ''string'')
                   sessionConfiguration session_initialDirectory Null;
               sessionConfiguration = sanitizeField sessionConfiguration session_args (Str [])
           in Inr sessionConfiguration))"

text \<open>
  The loop: \<open>createUuid\<close> gives the \<open>n\<close>-th identifier it makes, and \<open>n\<close> counts its
  calls. An exception ends the loop.
\<close>

fun sanitizeSessionConfig_for ::
  "(nat \<Rightarrow> string) \<Rightarrow> nat \<Rightarrow> SessionConfigurationKey jsobject option list
     \<Rightarrow> js_error + SessionConfigurationKey jsobject list" where
  "sanitizeSessionConfig_for createUuid n [] = Inr []"
| "sanitizeSessionConfig_for createUuid n (element # rest) =
     (case sanitizeSessionConfiguration (createUuid n) element of
        Inl e \<Rightarrow> Inl e
      | Inr sessionConfiguration \<Rightarrow>
          (case sanitizeSessionConfig_for createUuid (n + 1) rest of
             Inl e \<Rightarrow> Inl e
           | Inr sanitized \<Rightarrow> Inr (sessionConfiguration # sanitized)))"

text \<open>The result is the array given to \<open>configDatabase.setSessionConfig\<close>, or the exception.\<close>

definition sanitizeSessionConfig ::
  "(nat \<Rightarrow> string) \<Rightarrow> nat \<Rightarrow> SessionConfigurationKey jsobject option copy
     \<Rightarrow> js_error + SessionConfigurationKey jsobject list" where
  "sanitizeSessionConfig createUuid n sessionConfigCopy =
     (let sessionConfigs = (case sessionConfigCopy of
                              Nullish \<Rightarrow> [] | NotArray \<Rightarrow> [] | ArrayOf xs \<Rightarrow> xs)
      in sanitizeSessionConfig_for createUuid n sessionConfigs)"

section \<open>Notions the properties are stated with\<close>





text \<open>
  The container \<open>_createTabTitleWidgets\<close> makes for a contribution: the element with the
  given identity, the context's name and the contribution's css.
\<close>

definition container ::
  "string \<Rightarrow> nat \<times> 'css TabTitleWidgetContribution \<Rightarrow> 'css ExtensionContainerElement" where
  "container ctx p = \<lparr>elementId = fst p, extensionContext = ctx, extensionCss = css (snd p)\<rparr>"

definition hasFactory ::
  "('css, 'f, 't) ExtensionContextImpl \<Rightarrow> 'css TabTitleWidgetContribution \<Rightarrow> bool" where
  "hasFactory s contrib = (tabTitleWidgetFactoryMap s (name contrib) \<noteq> None)"

text \<open>The commands executed and the warnings logged among the calls of a key event.\<close>

fun executedCommands :: "KeyEffect list \<Rightarrow> string list" where
  "executedCommands [] = []"
| "executedCommands (ExecuteCommand c # es) = c # executedCommands es"
| "executedCommands (e # es) = executedCommands es"

fun loggedWarnings :: "KeyEffect list \<Rightarrow> string list" where
  "loggedWarnings [] = []"
| "loggedWarnings (Warn m # es) = m # loggedWarnings es"
| "loggedWarnings (e # es) = loggedWarnings es"

text \<open>
  The defaults of the configuration, as a table: a field must have a given \<open>typeof\<close>, or
  be one of the listed values; otherwise it is malformed and gets the default.
\<close>

datatype fieldRule = Typed string jsvalue | OneOf "jsvalue list" jsvalue

fun malformed :: "fieldRule \<Rightarrow> jsvalue \<Rightarrow> bool" where
  "malformed (Typed t d) v = (eq_null v \<or> typeof v \<noteq> t)"
| "malformed (OneOf vs d) v = (eq_null v \<or> v \<notin> set vs)"

fun defaultOf :: "fieldRule \<Rightarrow> jsvalue" where
  "defaultOf (Typed t d) = d"
| "defaultOf (OneOf vs d) = d"

text \<open>A table applied to an object, field by field.\<close>

definition applyDefaults ::
  "('k \<times> fieldRule) list \<Rightarrow> 'k jsobject \<Rightarrow> 'k jsobject" where
  "applyDefaults rules object key =
     (case map_of rules key of
        None \<Rightarrow> object key
      | Some rule \<Rightarrow> if malformed rule (object key) then defaultOf rule else object key)"

text \<open>
  The table \<open>sanitizeGeneralConfig\<close> follows: one line per field, in the order of its
  calls of \<open>sanitizeField\<close> and \<open>sanitizeStringEnumField\<close>.
\<close>

definition generalConfigDefaults ::
  "SanitizeEnv \<Rightarrow> (GeneralConfigKey \<times> fieldRule) list" where
  "generalConfigDefaults env =
    [(autoCopySelectionToClipboard, Typed ''boolean'' (Bool True)),
     (blinkingCursor, Typed ''boolean'' (Bool False)),
     (cursorStyle, OneOf [Str ''block'', Str ''underscore'', Str ''beam''] (Str ''block'')),
     (frameByDefault, Typed ''boolean'' (Bool True)),
     (frameRule, OneOf [Str ''always_frame'', Str ''frame_if_lines'', Str ''never_frame'']
        (Str ''frame_if_lines'')),
     (frameRuleLines, Typed ''number'' (Num (Fin 10))),
     (gpuDriverWorkaround, OneOf [Str ''none'', Str ''no_blend''] (Str ''none'')),
     (isHardwareAccelerated, Typed ''boolean'' (Bool True)),
     (keybindingsName, Typed ''string''
        (Str (if platform env = ''darwin'' then ''macos-style'' else ''pc-style''))),
     (minimizeToTray, Typed ''boolean'' (Bool False)),
     (scrollbackMaxFrames, Typed ''number'' (Num (Fin 100))),
     (scrollbackMaxLines, Typed ''number'' (Num (Fin 500000))),
     (showTips, OneOf [Str ''always'', Str ''daily'', Str ''never''] (Str ''always'')),
     (showTrayIcon, Typed ''boolean'' (Bool False)),
     (terminalFont, Typed ''string'' (Str ''LigaDejaVuSansMono'')),
     (terminalFontSize, Typed ''number'' (Num (Fin 13))),
     (terminalDisplayLigatures, Typed ''boolean'' (Bool True)),
     (terminalMarginStyle, OneOf [Str ''normal'', Str ''none'', Str ''thick'', Str ''thin'']
        (Str ''normal'')),
     (tipCounter, Typed ''number'' (Num (Fin 0))),
     (tipTimestamp, Typed ''number'' (Num (Fin 0))),
     (titleBarStyle, OneOf [Str ''compact'', Str ''native'', Str ''theme''] (Str ''compact'')),
     (uiScalePercent, Typed ''number'' (Num (Fin 100))),
     (windowBackgroundMode, OneOf [Str ''opaque'', Str ''blur''] (Str ''opaque'')),
     (windowBackgroundTransparencyPercent, Typed ''number'' (Num (Fin 50))),
     (closeWindowWhenEmpty, Typed ''boolean'' (Bool True)),
     (middleMouseButtonAction, Typed ''string'' (Str ''paste'')),
     (middleMouseButtonShiftAction, Typed ''string'' (Str ''paste'')),
     (middleMouseButtonControlAction, Typed ''string'' (Str ''paste'')),
     (rightMouseButtonAction, Typed ''string'' (Str ''context_menu'')),
     (rightMouseButtonShiftAction, Typed ''string'' (Str ''context_menu'')),
     (rightMouseButtonControlAction, Typed ''string'' (Str ''context_menu'')),
     (activeExtensions, Typed ''object'' (Object [])),
     (themeTerminal, Typed ''string'' (Str (FALLBACK_TERMINAL_THEME env))),
     (themeSyntax, Typed ''string'' (Str (FALLBACK_SYNTAX_THEME env))),
     (themeGUI, Typed ''string'' (Str ''two-dark-ui''))]"

text \<open>The fields \<open>sanitizeGeneralConfig\<close> writes again after sanitizing them.\<close>

definition adjustedKeys :: "GeneralConfigKey list" where
  "adjustedKeys = [isHardwareAccelerated, keybindingsName, terminalFont,
     terminalFontSize, uiScalePercent, windowBackgroundTransparencyPercent,
     themeTerminal, themeSyntax, themeGUI]"

text \<open>The table \<open>sanitizeSessionConfig\<close> follows for one session configuration.\<close>

definition sessionDefaults ::
  "string \<Rightarrow> (SessionConfigurationKey \<times> fieldRule) list" where
  "sessionDefaults newUuid =
    [(session_name, Typed ''string'' (Str [])),
     (session_uuid, Typed ''string'' (Str newUuid)),
     (session_type, Typed ''string'' (Str [])),
     (session_initialDirectory, Typed ''string'' Null),
     (session_args, Typed ''string'' (Str []))]"

text \<open>A finite number between two bounds.\<close>

definition in_range ::
  "real \<Rightarrow> real \<Rightarrow> jsvalue \<Rightarrow> bool" where
  "in_range lo hi v = (case v of Num (Fin r) \<Rightarrow> lo \<le> r \<and> r \<le> hi | _ \<Rightarrow> False)"

section \<open>Example inputs\<close>

text \<open>
  The example of the spec: the metadata declares \<open>ext:a\<close> and \<open>ext:b\<close> (the objects 0 and
  1), and \<open>ext:c\<close> (object 2) is a contribution made at run time. A function is registered
  for \<open>ext:a\<close>. The extension declares two tab title widgets and has a factory for the
  second.
\<close>

definition exampleObjects :: "addr \<Rightarrow> ExtensionCommandContribution" where
  "exampleObjects a =
     \<lparr>command = (if a = 0 then ''ext:a'' else if a = 1 then ''ext:b'' else ''ext:c''),
      title = ''Example'', category = ''window'', order = 1000, when' = [], icon = []\<rparr>"

definition exampleContext :: "(string, nat, unit) ExtensionContextImpl" where
  "exampleContext =
     \<lparr>extensionName = ''ext'',
      objects = exampleObjects,
      contributes_commands = [0, 1],
      contributes_tabTitleWidgets =
        [\<lparr>name = ''title'', css = ''title.css''\<rparr>, \<lparr>name = ''clock'', css = ''clock.css''\<rparr>],
      commands =
        \<lparr>commandToFunctionMap = [''ext:a'' \<mapsto> RegisteredFunction 1],
         commandToMenuEntryMap =
           [''ext:a'' \<mapsto> [\<lparr>commandContribution = 0, menuFlags = (\<lambda>menuType. False)\<rparr>]]\<rparr>,
      tabTitleWidgetFactoryMap = [''clock'' \<mapsto> 7],
      logger_warn = [],
      registrationChangedCalls = [],
      createdElements = 0,
      factoryCalls = []\<rparr>"

text \<open>
  An extension manager over the registry of the example context, whose handlers fail, and
  one whose query gives two commands.
\<close>

definition failingHandlers :: "CommandFunction \<Rightarrow> jsvalue \<Rightarrow> completion" where
  "failingHandlers handler commandArgs = Throw (Str ''handler failed'')"

definition registryManager :: ExtensionManager where
  "registryManager =
     \<lparr>isInputFieldFocus = False,
      queryCommands = (\<lambda>query. []),
      executeCommand = managerExecuteCommand [commands exampleContext] failingHandlers\<rparr>"

definition conflictManager :: ExtensionManager where
  "conflictManager =
     \<lparr>isInputFieldFocus = False,
      queryCommands = (\<lambda>query. [exampleObjects 0, exampleObjects 1]),
      executeCommand = (\<lambda>commandName args. Return Undefined)\<rparr>"

text \<open>A keybindings mapping that binds the key of the event to both commands.\<close>

definition mapEventToCommands_example :: "unit \<Rightarrow> string list" where
  "mapEventToCommands_example ev = [''ext:a'', ''ext:b'']"

definition exampleMessage :: ExecuteCommandMessage where
  "exampleMessage = \<lparr>commandName = ''ext:missing'', args = Undefined, uuid = ''u-1''\<rparr>"

definition exampleEnv :: SanitizeEnv where
  "exampleEnv =
     \<lparr>platform = ''linux'',
      AllLogicalKeybindingsNames = [''pc-style'', ''pc-style-emacs'', ''macos-style'', ''macos-style-emacs''],
      FALLBACK_TERMINAL_THEME = ''itermcolors-default'',
      FALLBACK_SYNTAX_THEME = ''default'',
      getTheme = (\<lambda>themeId. None)\<rparr>"

text \<open>A request for the command \<open>ext:a\<close>, which is registered.\<close>

definition registeredMessage :: ExecuteCommandMessage where
  "registeredMessage = \<lparr>commandName = ''ext:a'', args = Undefined, uuid = ''u-2''\<rparr>"

text \<open>A stored configuration whose three numbers are outside their ranges.\<close>

definition exampleNumbers :: "GeneralConfigKey jsobject" where
  "exampleNumbers =
     emptyObject(terminalFontSize := Num (Fin 2000), uiScalePercent := Num (Fin 1),
                 windowBackgroundTransparencyPercent := Num (Fin (- 3)))"

text \<open>A stored configuration with a font size of the wrong type and a cursor setting.\<close>

definition exampleConfig :: "GeneralConfigKey jsobject" where
  "exampleConfig = emptyObject(terminalFontSize := Str ''13'', blinkingCursor := Bool True)"

definition exampleSession :: "SessionConfigurationKey jsobject" where
  "exampleSession = emptyObject(session_name := Str ''bash'', session_args := Num (Fin 3))"

section \<open>The extension context: capability boundary, widgets and menus\<close>

text \<open>
  Claim C5. In a render-process context every access of \<open>backend\<close> logs the warning and
  then throws an \<open>Error\<close> with the same message: it never returns a value, and the warning is
  the only change of the context.
\<close>

theorem backend_warns_then_throws:
  "snd (backend s) = Inl (Error backend_message)
   \<and> (\<forall>v. snd (backend s) \<noteq> Inr v)
   \<and> fst (backend s) = s\<lparr>logger_warn := logger_warn s @ [backend_message]\<rparr>"
  by (simp add: backend_def)

theorem backend_warns_then_throws_witness:
  "snd (backend exampleContext) = Inl (Error backend_message)
   \<and> logger_warn (fst (backend exampleContext)) = [backend_message]"
  using backend_warns_then_throws [of exampleContext] by (simp add: exampleContext_def)

lemma registerTabTitleWidget_for_unknown:
  "n \<notin> name ` set ws \<Longrightarrow>
     registerTabTitleWidget_for ws s n factory
       = s\<lparr>logger_warn := logger_warn s @ [unknown_widget_message n]\<rparr>"
  by (induction ws) auto

lemma registerTabTitleWidget_for_known:
  "n \<in> name ` set ws \<Longrightarrow>
     registerTabTitleWidget_for ws s n factory
       = s\<lparr>tabTitleWidgetFactoryMap := (tabTitleWidgetFactoryMap s)(n \<mapsto> factory)\<rparr>"
  by (induction ws) auto

text \<open>
  Claim C7. A name that no tab title widget contribution of the metadata has: the call logs
  the warning, returns, and leaves the factory map (and everything but the log) as it was. A
  name that a contribution has: the factory is stored under the name, and nothing is logged.
\<close>

theorem registerTabTitleWidget_unknown_or_known:
  "(n \<notin> name ` set (contributes_tabTitleWidgets s) \<longrightarrow>
      ctx_registerTabTitleWidget s n factory
        = s\<lparr>logger_warn := logger_warn s @ [unknown_widget_message n]\<rparr>
      \<and> tabTitleWidgetFactoryMap (ctx_registerTabTitleWidget s n factory)
          = tabTitleWidgetFactoryMap s)
   \<and> (n \<in> name ` set (contributes_tabTitleWidgets s) \<longrightarrow>
      ctx_registerTabTitleWidget s n factory
        = s\<lparr>tabTitleWidgetFactoryMap := (tabTitleWidgetFactoryMap s)(n \<mapsto> factory)\<rparr>
      \<and> tabTitleWidgetFactoryMap (ctx_registerTabTitleWidget s n factory) n = Some factory
      \<and> logger_warn (ctx_registerTabTitleWidget s n factory) = logger_warn s)"
  by (simp add: ctx_registerTabTitleWidget_def registerTabTitleWidget_for_unknown
        registerTabTitleWidget_for_known)

theorem registerTabTitleWidget_unknown_or_known_witness:
  "''nosuch'' \<notin> name ` set (contributes_tabTitleWidgets exampleContext)
   \<and> logger_warn (ctx_registerTabTitleWidget exampleContext ''nosuch'' 9)
       = [unknown_widget_message ''nosuch'']
   \<and> tabTitleWidgetFactoryMap (ctx_registerTabTitleWidget exampleContext ''nosuch'' 9)
       = tabTitleWidgetFactoryMap exampleContext
   \<and> ''title'' \<in> name ` set (contributes_tabTitleWidgets exampleContext)
   \<and> tabTitleWidgetFactoryMap (ctx_registerTabTitleWidget exampleContext ''title'' 9) ''title''
       = Some 9"
proof -
  have unknown: "''nosuch'' \<notin> name ` set (contributes_tabTitleWidgets exampleContext)"
    by (simp add: exampleContext_def)
  have known: "''title'' \<in> name ` set (contributes_tabTitleWidgets exampleContext)"
    by (simp add: exampleContext_def)
  have "logger_warn exampleContext = []"
    by (simp add: exampleContext_def)
  with unknown known
    registerTabTitleWidget_unknown_or_known [of "''nosuch''" exampleContext 9]
    registerTabTitleWidget_unknown_or_known [of "''title''" exampleContext 9]
  show ?thesis by simp
qed

text \<open>
  Claim C8. When the map has no entry list for the command id, \<open>_setCommandMenu\<close> returns
  the state it was given. When it has one, the list it has afterwards is as long, every entry
  of it has the flag of the menu type set to the given value, and each entry keeps its
  contribution and its other flags.
\<close>

theorem setCommandMenu_sets_every_entry:
  "(commandToMenuEntryMap (commands s) cmd = None \<longrightarrow> ctx_setCommandMenu s cmd menuType on = s)
   \<and> (\<forall>entryList. commandToMenuEntryMap (commands s) cmd = Some entryList \<longrightarrow>
        (\<exists>entryList'.
           commandToMenuEntryMap (commands (ctx_setCommandMenu s cmd menuType on)) cmd
             = Some entryList'
           \<and> length entryList' = length entryList
           \<and> (\<forall>entry \<in> set entryList'. menuFlags entry menuType = on)
           \<and> (\<forall>i < length entryList.
                 commandContribution (entryList' ! i) = commandContribution (entryList ! i)
                 \<and> (\<forall>other. other \<noteq> menuType \<longrightarrow>
                       menuFlags (entryList' ! i) other = menuFlags (entryList ! i) other))))"
  by (auto simp: ctx_setCommandMenu_def)

theorem setCommandMenu_sets_every_entry_witness:
  "commandToMenuEntryMap (commands exampleContext) ''ext:b'' = None
   \<and> ctx_setCommandMenu exampleContext ''ext:b'' newTerminal True = exampleContext
   \<and> commandToMenuEntryMap (commands exampleContext) ''ext:a''
       = Some [\<lparr>commandContribution = 0, menuFlags = (\<lambda>menuType. False)\<rparr>]
   \<and> (\<exists>entryList'.
         commandToMenuEntryMap (commands (ctx_setCommandMenu exampleContext ''ext:a'' newTerminal True))
           ''ext:a'' = Some entryList'
         \<and> length entryList' = 1
         \<and> list_all (\<lambda>entry. menuFlags entry newTerminal = True) entryList')"
proof -
  have none: "commandToMenuEntryMap (commands exampleContext) ''ext:b'' = None"
    by (simp add: exampleContext_def)
  have some: "commandToMenuEntryMap (commands exampleContext) ''ext:a''
       = Some [\<lparr>commandContribution = 0, menuFlags = (\<lambda>menuType. False)\<rparr>]"
    by (simp add: exampleContext_def)
  from none setCommandMenu_sets_every_entry [of exampleContext "''ext:b''" newTerminal True]
  have first: "ctx_setCommandMenu exampleContext ''ext:b'' newTerminal True = exampleContext"
    by blast
  from some setCommandMenu_sets_every_entry [of exampleContext "''ext:a''" newTerminal True]
  obtain entryList' where
    "commandToMenuEntryMap (commands (ctx_setCommandMenu exampleContext ''ext:a'' newTerminal True))
       ''ext:a'' = Some entryList'"
    "length entryList' = 1"
    "\<forall>entry \<in> set entryList'. menuFlags entry newTerminal = True"
    by auto
  with none some first show ?thesis by (auto simp: list_all_iff)
qed

lemma createTabTitleWidgets_for_result:
  "snd (createTabTitleWidgets_for cs s terminal acc) =
     acc @ map (container (extensionName s))
             (enumerate (createdElements s) (filter (hasFactory s) cs))"
proof (induction cs arbitrary: s acc)
  case Nil
  show ?case by simp
next
  case (Cons contrib rest)
  show ?case
  proof (cases "tabTitleWidgetFactoryMap s (name contrib)")
    case None
    with Cons [of s acc] show ?thesis by (simp add: hasFactory_def)
  next
    case (Some factory)
    define s' where "s' = s\<lparr>createdElements := createdElements s + 1,
      factoryCalls := factoryCalls s @ [(factory, terminal, createdElements s)]\<rparr>"
    have same: "hasFactory s' = hasFactory s"
      by (simp add: s'_def hasFactory_def fun_eq_iff)
    from Some Cons [of s' "acc @ [container (extensionName s) (createdElements s, contrib)]"]
    show ?thesis
      by (simp add: same hasFactory_def container_def Let_def s'_def)
  qed
qed

lemma createTabTitleWidgets_for_state:
  "tabTitleWidgetFactoryMap (fst (createTabTitleWidgets_for cs s terminal acc))
     = tabTitleWidgetFactoryMap s
   \<and> contributes_tabTitleWidgets (fst (createTabTitleWidgets_for cs s terminal acc))
     = contributes_tabTitleWidgets s
   \<and> logger_warn (fst (createTabTitleWidgets_for cs s terminal acc)) = logger_warn s"
  by (induction cs arbitrary: s acc) (auto simp: Let_def split: option.splits)

text \<open>
  Claim C4. The list \<open>_createTabTitleWidgets\<close> returns has exactly one container for each
  contribution of the metadata whose name has a factory, in the order of the metadata: the
  \<open>i\<close>-th of these contributions gets the \<open>i\<close>-th new element, with the context and the
  contribution's css set. A contribution without a factory adds nothing; no warning is logged
  and the factory map stays as it was.
\<close>

theorem createTabTitleWidgets_one_container_per_factory:
  "snd (ctx_createTabTitleWidgets s terminal) =
     map (container (extensionName s))
       (enumerate (createdElements s) (filter (hasFactory s) (contributes_tabTitleWidgets s)))
   \<and> length (snd (ctx_createTabTitleWidgets s terminal))
       = length (filter (hasFactory s) (contributes_tabTitleWidgets s))
   \<and> map extensionCss (snd (ctx_createTabTitleWidgets s terminal))
       = map css (filter (hasFactory s) (contributes_tabTitleWidgets s))
   \<and> distinct (map elementId (snd (ctx_createTabTitleWidgets s terminal)))
   \<and> tabTitleWidgetFactoryMap (fst (ctx_createTabTitleWidgets s terminal))
       = tabTitleWidgetFactoryMap s
   \<and> logger_warn (fst (ctx_createTabTitleWidgets s terminal)) = logger_warn s"
proof -
  let ?regs = "filter (hasFactory s) (contributes_tabTitleWidgets s)"
  have result: "snd (ctx_createTabTitleWidgets s terminal) =
      map (container (extensionName s)) (enumerate (createdElements s) ?regs)"
    by (simp add: ctx_createTabTitleWidgets_def createTabTitleWidgets_for_result)
  have css: "map extensionCss (map (container (extensionName s)) (enumerate (createdElements s) ?regs))
      = map css ?regs"
  proof -
    have "map extensionCss (map (container (extensionName s)) (enumerate (createdElements s) ?regs))
        = map css (map snd (enumerate (createdElements s) ?regs))"
      by (simp add: container_def comp_def del: map_snd_enumerate)
    then show ?thesis by simp
  qed
  have ids: "map elementId (map (container (extensionName s)) (enumerate (createdElements s) ?regs))
      = map fst (enumerate (createdElements s) ?regs)"
    by (simp add: container_def comp_def)
  have state: "tabTitleWidgetFactoryMap (fst (ctx_createTabTitleWidgets s terminal))
        = tabTitleWidgetFactoryMap s
      \<and> logger_warn (fst (ctx_createTabTitleWidgets s terminal)) = logger_warn s"
    using createTabTitleWidgets_for_state [of "contributes_tabTitleWidgets s" s terminal "[]"]
    by (simp add: ctx_createTabTitleWidgets_def)
  show ?thesis
    unfolding result css ids using state by simp
qed

theorem createTabTitleWidgets_one_container_per_factory_witness:
  "snd (ctx_createTabTitleWidgets exampleContext ())
     = [\<lparr>elementId = 0, extensionContext = ''ext'', extensionCss = ''clock.css''\<rparr>]"
  using createTabTitleWidgets_one_container_per_factory [of exampleContext "()"]
  by (simp add: exampleContext_def hasFactory_def container_def enumerate_eq_zip)

section \<open>Registering a command contribution and disposing of it\<close>

















section \<open>The window's start-up module: command requests and key events\<close>

text \<open>
  Claim C2. Whatever the extension manager answers to \<open>executeCommand\<close>: no exception
  leaves \<open>handleExecuteCommand\<close>, and every response carries the uuid of the request. When
  \<open>executeCommand\<close> throws, the response carries a null result and the exception; when the
  promise it returned is rejected, the response carries the reason. With the manager's
  \<open>executeCommand\<close> as the spec describes it: for an id that no registry knows the response
  carries the "not found" error, which is not null, and when the handler that was looked up
  throws, the response carries what it threw.
\<close>

theorem handleExecuteCommand_answers_with_the_error:
  "(\<forall>ex. executeCommand extensionManager (commandName msg) (args msg) = Throw ex \<longrightarrow>
       handleExecuteCommand extensionManager promises msg
         = Some (Inr (commandResponse (uuid msg) Null ex)))
   \<and> (\<forall>p ex. executeCommand extensionManager (commandName msg) (args msg) = Return (Promise p)
                \<and> promises p = Rejected ex \<longrightarrow>
       handleExecuteCommand extensionManager promises msg
         = Some (Inr (commandResponse (uuid msg) (Promise p) ex)))
   \<and> (\<forall>e. handleExecuteCommand extensionManager promises msg \<noteq> Some (Inl e))
   \<and> (\<forall>m. handleExecuteCommand extensionManager promises msg = Some (Inr m) \<longrightarrow>
          (\<exists>result exception. m = commandResponse (uuid msg) result exception))
   \<and> (\<forall>registries invoke.
          executeCommand extensionManager = managerExecuteCommand registries invoke
          \<and> lookupCommandFunction registries (commandName msg) = None \<longrightarrow>
          handleExecuteCommand extensionManager promises msg
            = Some (Inr (commandResponse (uuid msg) Null (notFoundError (commandName msg))))
          \<and> notFoundError (commandName msg) \<noteq> Null)
   \<and> (\<forall>registries invoke handler ex.
          executeCommand extensionManager = managerExecuteCommand registries invoke
          \<and> lookupCommandFunction registries (commandName msg) = Some handler
          \<and> invoke handler (args msg) = Throw ex \<longrightarrow>
          handleExecuteCommand extensionManager promises msg
            = Some (Inr (commandResponse (uuid msg) Null ex)))"
proof -
  have thrown: "handleExecuteCommand extensionManager promises msg
      = Some (Inr (commandResponse (uuid msg) Null ex))"
    if "executeCommand extensionManager (commandName msg) (args msg) = Throw ex" for ex
    using that by (simp add: handleExecuteCommand_def)
  have rejected: "handleExecuteCommand extensionManager promises msg
      = Some (Inr (commandResponse (uuid msg) (Promise p) ex))"
    if "executeCommand extensionManager (commandName msg) (args msg) = Return (Promise p)"
      and "promises p = Rejected ex" for p ex
    using that by (simp add: handleExecuteCommand_def)
  have caught: "handleExecuteCommand extensionManager promises msg \<noteq> Some (Inl e)" for e
    by (simp add: handleExecuteCommand_def
          split: completion.splits jsvalue.splits settlement.splits)
  have paired: "\<exists>result exception. m = commandResponse (uuid msg) result exception"
    if "handleExecuteCommand extensionManager promises msg = Some (Inr m)" for m
    using that
    by (auto simp: handleExecuteCommand_def
          split: completion.splits jsvalue.splits settlement.splits)
  have missing: "executeCommand extensionManager (commandName msg) (args msg)
      = Throw (notFoundError (commandName msg))"
    if "executeCommand extensionManager = managerExecuteCommand registries invoke"
      and "lookupCommandFunction registries (commandName msg) = None" for registries invoke
    using that by (simp add: managerExecuteCommand_def)
  have failing: "executeCommand extensionManager (commandName msg) (args msg) = Throw ex"
    if "executeCommand extensionManager = managerExecuteCommand registries invoke"
      and "lookupCommandFunction registries (commandName msg) = Some handler"
      and "invoke handler (args msg) = Throw ex" for registries invoke handler ex
    using that by (simp add: managerExecuteCommand_def)
  have error: "notFoundError (commandName msg) \<noteq> Null"
    by (simp add: notFoundError_def)
  from thrown rejected caught paired missing failing error show ?thesis
    by blast
qed

theorem handleExecuteCommand_answers_with_the_error_witness:
  "executeCommand registryManager = managerExecuteCommand [commands exampleContext] failingHandlers
   \<and> lookupCommandFunction [commands exampleContext] (commandName exampleMessage) = None
   \<and> handleExecuteCommand registryManager (\<lambda>p. Pending) exampleMessage
       = Some (Inr (commandResponse ''u-1'' Null (notFoundError ''ext:missing'')))
   \<and> lookupCommandFunction [commands exampleContext] (commandName registeredMessage)
       = Some (RegisteredFunction 1)
   \<and> failingHandlers (RegisteredFunction 1) (args registeredMessage) = Throw (Str ''handler failed'')
   \<and> handleExecuteCommand registryManager (\<lambda>p. Pending) registeredMessage
       = Some (Inr (commandResponse ''u-2'' Null (Str ''handler failed'')))"
proof -
  have manager: "executeCommand registryManager
      = managerExecuteCommand [commands exampleContext] failingHandlers"
    by (simp add: registryManager_def)
  have unknown: "lookupCommandFunction [commands exampleContext] (commandName exampleMessage)
      = None"
    by (simp add: exampleMessage_def exampleContext_def getCommandFunction_def)
  have known: "lookupCommandFunction [commands exampleContext] (commandName registeredMessage)
      = Some (RegisteredFunction 1)"
    by (simp add: registeredMessage_def exampleContext_def getCommandFunction_def)
  have fails: "failingHandlers (RegisteredFunction 1) (args registeredMessage)
      = Throw (Str ''handler failed'')"
    by (simp add: failingHandlers_def)
  from handleExecuteCommand_answers_with_the_error
         [of registryManager exampleMessage "\<lambda>p. Pending"] manager unknown
  have "handleExecuteCommand registryManager (\<lambda>p. Pending) exampleMessage
      = Some (Inr (commandResponse (uuid exampleMessage) Null
                     (notFoundError (commandName exampleMessage))))"
    by blast
  then have first: "handleExecuteCommand registryManager (\<lambda>p. Pending) exampleMessage
      = Some (Inr (commandResponse ''u-1'' Null (notFoundError ''ext:missing'')))"
    by (simp add: exampleMessage_def)
  from handleExecuteCommand_answers_with_the_error
         [of registryManager registeredMessage "\<lambda>p. Pending"] manager known fails
  have "handleExecuteCommand registryManager (\<lambda>p. Pending) registeredMessage
      = Some (Inr (commandResponse (uuid registeredMessage) Null (Str ''handler failed'')))"
    by blast
  then have second: "handleExecuteCommand registryManager (\<lambda>p. Pending) registeredMessage
      = Some (Inr (commandResponse ''u-2'' Null (Str ''handler failed'')))"
    by (simp add: registeredMessage_def)
  from manager unknown first known fails second show ?thesis by blast
qed

lemma join_sublist: "x \<in> set xs \<Longrightarrow> sublist x (join sep xs)"
proof (induction sep xs rule: join.induct)
  case (3 sep a b ys)
  show ?case
  proof (cases "x = a")
    case True
    then show ?thesis by simp
  next
    case False
    with 3 have "sublist x (join sep (b # ys))" by simp
    then obtain ps ss where "join sep (b # ys) = ps @ x @ ss"
      by (auto simp: sublist_def)
    then have "join sep (a # b # ys) = (a @ sep @ ps) @ x @ ss" by simp
    then show ?thesis unfolding sublist_def by blast
  qed
qed simp_all

lemma conflicting_message_names: "x \<in> set ids \<Longrightarrow> sublist x (conflicting_message ids)"
proof -
  assume "x \<in> set ids"
  then have "sublist x (join '', '' ids)" by (rule join_sublist)
  then obtain ps ss where "join '', '' ids = ps @ x @ ss"
    by (auto simp: sublist_def)
  then have "conflicting_message ids
      = (''Commands '' @ ps) @ x @ (ss @ '' have conflicting keybindings.'')"
    by (simp add: conflicting_message_def)
  then show ?thesis unfolding sublist_def by blast
qed

lemma executedCommands_append [simp]:
  "executedCommands (xs @ ys) = executedCommands xs @ executedCommands ys"
  by (induction xs rule: executedCommands.induct) simp_all

lemma loggedWarnings_append [simp]:
  "loggedWarnings (xs @ ys) = loggedWarnings xs @ loggedWarnings ys"
  by (induction xs rule: loggedWarnings.induct) simp_all

text \<open>
  Claim C3. When the query of the commands bound to the key gives a list that is not empty,
  \<open>executeCommand\<close> is called once, with the id of the first command of the list. When
  the list has more than one element, one warning is logged before that call, and the id of
  every command of the list occurs in its text.
\<close>

theorem handleKeyCapture_first_match_and_warning:
  assumes "queryCommands extensionManager
             (mapEventToCommands ev,
              if isInputFieldFocus extensionManager then Some [''application'', ''window'']
              else None,
              True) = filteredCommands"
    and "filteredCommands \<noteq> []"
  shows "executedCommands (fst (handleKeyCapture extensionManager mapEventToCommands ev))
           = [command (hd filteredCommands)]
         \<and> (1 < length filteredCommands \<longrightarrow>
              loggedWarnings (fst (handleKeyCapture extensionManager mapEventToCommands ev))
                = [conflicting_message (map command filteredCommands)]
              \<and> (\<forall>c \<in> set filteredCommands.
                    sublist (command c) (conflicting_message (map command filteredCommands))))"
  using assms
  by (auto simp: handleKeyCapture_def Let_def hd_conv_nth
        split: completion.splits intro!: conflicting_message_names)

theorem handleKeyCapture_first_match_and_warning_witness:
  "queryCommands conflictManager
     (mapEventToCommands_example (),
      if isInputFieldFocus conflictManager then Some [''application'', ''window''] else None,
      True) = [exampleObjects 0, exampleObjects 1]
   \<and> [exampleObjects 0, exampleObjects 1] \<noteq> []
   \<and> executedCommands (fst (handleKeyCapture conflictManager mapEventToCommands_example ()))
       = [''ext:a'']
   \<and> loggedWarnings (fst (handleKeyCapture conflictManager mapEventToCommands_example ()))
       = [''Commands ext:a, ext:b have conflicting keybindings.'']"
proof -
  have query: "queryCommands conflictManager
     (mapEventToCommands_example (),
      if isInputFieldFocus conflictManager then Some [''application'', ''window''] else None,
      True) = [exampleObjects 0, exampleObjects 1]"
    by (simp add: conflictManager_def)
  have nonempty: "[exampleObjects 0, exampleObjects 1] \<noteq> []"
    by simp
  from handleKeyCapture_first_match_and_warning
         [of conflictManager mapEventToCommands_example "()" "[exampleObjects 0, exampleObjects 1]"]
       query nonempty
  show ?thesis
    by (simp add: exampleObjects_def conflicting_message_def)
qed

section \<open>Sanitation of the stored configuration: field by field\<close>

lemma assign_apply: "assign object key v k = (if k = key then v else object k)"
  by (simp add: assign_def)

lemma assignIf_apply:
  "assignIf b object key v k = (if k = key then (if b then v else object key) else object k)"
  by (simp add: assignIf_def assign_def)

lemma sanitizeField_apply:
  "sanitizeField object key d k =
     (if k = key
      then (if eq_null (object key) \<or> typeof (object key) \<noteq> typeof d then d else object key)
      else object k)"
  by (simp add: sanitizeField_def assign_def)

lemma sanitizeStringEnumField_apply:
  "sanitizeStringEnumField object key vs d k =
     (if k = key then (if eq_null (object key) \<or> object key \<notin> set vs then d else object key)
      else object k)"
  by (simp add: sanitizeStringEnumField_def assign_def)

lemma checkKeybindingsName_apply:
  "checkKeybindingsName env g k =
     (if k = keybindingsName
      then (if g keybindingsName \<notin> set (map Str (AllLogicalKeybindingsNames env))
            then platformKeybindings env else g keybindingsName)
      else g k)"
  by (simp add: checkKeybindingsName_def assignIf_apply)

lemma checkTerminalFont_apply:
  "checkTerminalFont fonts g k =
     (if k = terminalFont
      then (if \<not> list_ex (\<lambda>font. Str (postscriptName font) = g terminalFont) fonts
            then Str DEFAULT_TERMINALFONT else g terminalFont)
      else g k)"
  by (simp add: checkTerminalFont_def assignIf_apply)

lemma clampTerminalFontSize_apply:
  "clampTerminalFontSize g k =
     (if k = terminalFontSize
      then Num (Math_max (Math_min (Fin 1024) (ToNumber (g terminalFontSize))) (Fin 4))
      else g k)"
  by (simp add: clampTerminalFontSize_def assign_apply)

lemma clampUiScalePercent_apply:
  "clampUiScalePercent g k =
     (if k = uiScalePercent
      then Num (Math_min (Fin 500)
                  (Math_max (Fin 5) (ToNumber (js_or (g uiScalePercent) (Num (Fin 100))))))
      else g k)"
  by (simp add: clampUiScalePercent_def assign_apply)

lemma clampWindowBackgroundTransparencyPercent_apply:
  "clampWindowBackgroundTransparencyPercent g k =
     (if k = windowBackgroundTransparencyPercent
      then Num (Math_max (Math_min (Fin 100) (ToNumber (g windowBackgroundTransparencyPercent)))
                  (Fin 0))
      else g k)"
  by (simp add: clampWindowBackgroundTransparencyPercent_def assign_apply)

lemma checkThemeTerminal_apply:
  "checkThemeTerminal env g k =
     (if k = themeTerminal
      then (if \<not> isThemeType (getTheme env (g themeTerminal)) ''terminal''
            then Str (FALLBACK_TERMINAL_THEME env) else g themeTerminal)
      else g k)"
  by (simp add: checkThemeTerminal_def assignIf_apply)

lemma checkThemeSyntax_apply:
  "checkThemeSyntax env g k =
     (if k = themeSyntax
      then (if \<not> isThemeType (getTheme env (g themeSyntax)) ''syntax''
            then Str (FALLBACK_SYNTAX_THEME env) else g themeSyntax)
      else g k)"
  by (simp add: checkThemeSyntax_def assignIf_apply)

lemma checkThemeGUI_apply:
  "checkThemeGUI env g k =
     (if k = themeGUI
      then (if g themeGUI = Str ''default''
               \<or> \<not> isThemeType (getTheme env (g themeGUI)) ''gui''
            then Str ''two-dark-ui'' else g themeGUI)
      else g k)"
  by (simp add: checkThemeGUI_def assignIf_apply)

lemmas statement_apply =
  assign_apply assignIf_apply sanitizeField_apply sanitizeStringEnumField_apply
  checkKeybindingsName_apply checkTerminalFont_apply clampTerminalFontSize_apply
  clampUiScalePercent_apply clampWindowBackgroundTransparencyPercent_apply
  checkThemeTerminal_apply checkThemeSyntax_apply checkThemeGUI_apply

lemma general_pure:
  "key \<notin> set adjustedKeys \<Longrightarrow>
     sanitizeGeneralConfig env (Some c) fonts key = applyDefaults (generalConfigDefaults env) c key"
  by (cases key)
     (simp_all add: sanitizeGeneralConfig_def Let_def statement_apply applyDefaults_def
        generalConfigDefaults_def adjustedKeys_def frameRules_def)

lemma general_adjusted:
  "eq_null (c isHardwareAccelerated) \<or> typeof (c isHardwareAccelerated) \<noteq> ''boolean'' \<Longrightarrow>
     sanitizeGeneralConfig env (Some c) fonts isHardwareAccelerated = Bool True"
  "eq_null (c keybindingsName) \<or> typeof (c keybindingsName) \<noteq> ''string'' \<Longrightarrow>
     sanitizeGeneralConfig env (Some c) fonts keybindingsName
       = Str (if platform env = ''darwin'' then ''macos-style'' else ''pc-style'')"
  "eq_null (c terminalFont) \<or> typeof (c terminalFont) \<noteq> ''string'' \<Longrightarrow>
     sanitizeGeneralConfig env (Some c) fonts terminalFont = Str ''LigaDejaVuSansMono''"
  "eq_null (c terminalFontSize) \<or> typeof (c terminalFontSize) \<noteq> ''number'' \<Longrightarrow>
     sanitizeGeneralConfig env (Some c) fonts terminalFontSize = Num (Fin 13)"
  "eq_null (c uiScalePercent) \<or> typeof (c uiScalePercent) \<noteq> ''number'' \<Longrightarrow>
     sanitizeGeneralConfig env (Some c) fonts uiScalePercent = Num (Fin 100)"
  "eq_null (c windowBackgroundTransparencyPercent)
     \<or> typeof (c windowBackgroundTransparencyPercent) \<noteq> ''number'' \<Longrightarrow>
     sanitizeGeneralConfig env (Some c) fonts windowBackgroundTransparencyPercent = Num (Fin 50)"
  "eq_null (c themeTerminal) \<or> typeof (c themeTerminal) \<noteq> ''string'' \<Longrightarrow>
     sanitizeGeneralConfig env (Some c) fonts themeTerminal = Str (FALLBACK_TERMINAL_THEME env)"
  "eq_null (c themeSyntax) \<or> typeof (c themeSyntax) \<noteq> ''string'' \<Longrightarrow>
     sanitizeGeneralConfig env (Some c) fonts themeSyntax = Str (FALLBACK_SYNTAX_THEME env)"
  "eq_null (c themeGUI) \<or> typeof (c themeGUI) \<noteq> ''string'' \<Longrightarrow>
     sanitizeGeneralConfig env (Some c) fonts themeGUI = Str ''two-dark-ui''"
  by (simp_all add: sanitizeGeneralConfig_def Let_def statement_apply platformKeybindings_def
        KEYBINDINGS_OSX_def KEYBINDINGS_PC_def DEFAULT_TERMINALFONT_def js_or_def)

lemma general_default_at:
  assumes rule: "map_of (generalConfigDefaults env) key = Some rule"
    and bad: "malformed rule (c key)"
  shows "sanitizeGeneralConfig env (Some c) fonts key = defaultOf rule"
proof (cases "key \<in> set adjustedKeys")
  case False
  with rule bad show ?thesis by (simp add: general_pure applyDefaults_def)
next
  case True
  then consider "key = isHardwareAccelerated" | "key = keybindingsName" | "key = terminalFont"
    | "key = terminalFontSize" | "key = uiScalePercent"
    | "key = windowBackgroundTransparencyPercent" | "key = themeTerminal" | "key = themeSyntax"
    | "key = themeGUI"
    by (auto simp: adjustedKeys_def)
  then show ?thesis
    using rule bad by cases (auto simp: generalConfigDefaults_def general_adjusted)
qed

lemma generalConfigDefaults_distinct: "distinct (map fst (generalConfigDefaults env))"
  by (simp add: generalConfigDefaults_def)

lemma general_defaults:
  "\<forall>(key, rule) \<in> set (generalConfigDefaults env).
      malformed rule (c key) \<longrightarrow>
        sanitizeGeneralConfig env (Some c) fonts key = defaultOf rule"
  using general_default_at map_of_is_SomeI [OF generalConfigDefaults_distinct] by blast

lemma general_missing:
  "\<forall>(key, rule) \<in> set (generalConfigDefaults env).
      sanitizeGeneralConfig env None fonts key = defaultOf rule"
proof -
  have same: "sanitizeGeneralConfig env None fonts = sanitizeGeneralConfig env (Some emptyObject) fonts"
    by (simp add: sanitizeGeneralConfig_def)
  have "\<forall>(key, rule) \<in> set (generalConfigDefaults env). malformed rule (emptyObject key)"
    by (simp add: generalConfigDefaults_def emptyObject_def eq_null_def)
  with general_defaults [of env emptyObject fonts] show ?thesis
    unfolding same by fastforce
qed

lemma eq_null_typeof: "eq_null v \<Longrightarrow> typeof v \<noteq> ''string''"
  by (auto simp: eq_null_def)

lemma session_element:
  "sanitizeSessionConfiguration newUuid (Some x) = Inr (applyDefaults (sessionDefaults newUuid) x)"
proof -
  have "(let s = sanitizeField x session_name (Str []);
             s = sanitizeField s session_uuid (Str newUuid);
             s = assignIf (typeof (s session_type) \<noteq> ''string'') s session_type (Str []);
             s = assignIf (eq_null (s session_initialDirectory)
                           \<or> typeof (s session_initialDirectory) \<noteq> ''string'')
                   s session_initialDirectory Null;
             s = sanitizeField s session_args (Str [])
         in s) key = applyDefaults (sessionDefaults newUuid) x key" for key
    by (cases key)
       (auto simp: Let_def statement_apply applyDefaults_def sessionDefaults_def
          dest: eq_null_typeof)
  then show ?thesis
    unfolding sanitizeSessionConfiguration_def by (simp add: fun_eq_iff Let_def)
qed

lemma session_loop:
  "sanitizeSessionConfig_for createUuid n (map Some xs) =
     Inr (map (\<lambda>(i, x). applyDefaults (sessionDefaults (createUuid i)) x) (enumerate n xs))"
  by (induction xs arbitrary: n) (simp_all add: session_element)

lemma typeof_number: "typeof v = ''number'' \<Longrightarrow> \<exists>n. v = Num n"
  by (cases v) simp_all

lemma clamp_max_min: "n \<noteq> NaN \<Longrightarrow> lo \<le> hi \<Longrightarrow> in_range lo hi (Num (Math_max (Math_min (Fin hi) n) (Fin lo)))"
  by (cases n) (simp_all add: in_range_def)

lemma clamp_min_max: "n \<noteq> NaN \<Longrightarrow> lo \<le> hi \<Longrightarrow> in_range lo hi (Num (Math_min (Fin hi) (Math_max (Fin lo) n)))"
  by (cases n) (simp_all add: in_range_def)

lemma terminalFontSize_value:
  "sanitizeGeneralConfig env (Some c) fonts terminalFontSize =
     Num (Math_max (Math_min (Fin 1024)
            (ToNumber (if eq_null (c terminalFontSize) \<or> typeof (c terminalFontSize) \<noteq> ''number''
                       then Num (Fin 13) else c terminalFontSize))) (Fin 4))"
  by (simp add: sanitizeGeneralConfig_def Let_def statement_apply)

lemma uiScalePercent_value:
  "sanitizeGeneralConfig env (Some c) fonts uiScalePercent =
     Num (Math_min (Fin 500) (Math_max (Fin 5)
            (ToNumber (js_or (if eq_null (c uiScalePercent) \<or> typeof (c uiScalePercent) \<noteq> ''number''
                              then Num (Fin 100) else c uiScalePercent) (Num (Fin 100))))))"
  by (simp add: sanitizeGeneralConfig_def Let_def statement_apply)

lemma transparency_value:
  "sanitizeGeneralConfig env (Some c) fonts windowBackgroundTransparencyPercent =
     Num (Math_max (Math_min (Fin 100)
            (ToNumber (if eq_null (c windowBackgroundTransparencyPercent)
                          \<or> typeof (c windowBackgroundTransparencyPercent) \<noteq> ''number''
                       then Num (Fin 50) else c windowBackgroundTransparencyPercent))) (Fin 0))"
  by (simp add: sanitizeGeneralConfig_def Let_def statement_apply)

lemma terminalFontSize_range:
  assumes "c terminalFontSize \<noteq> Num NaN"
  shows "in_range 4 1024 (sanitizeGeneralConfig env (Some c) fonts terminalFontSize)"
proof (cases "eq_null (c terminalFontSize) \<or> typeof (c terminalFontSize) \<noteq> ''number''")
  case True
  then show ?thesis by (simp add: terminalFontSize_value in_range_def)
next
  case False
  then obtain n where n: "c terminalFontSize = Num n" using typeof_number by blast
  with assms have "n \<noteq> NaN" by simp
  then have "in_range 4 1024 (Num (Math_max (Math_min (Fin 1024) n) (Fin 4)))"
    by (rule clamp_max_min) simp
  with False n show ?thesis by (simp add: terminalFontSize_value)
qed

lemma transparency_range:
  assumes "c windowBackgroundTransparencyPercent \<noteq> Num NaN"
  shows "in_range 0 100 (sanitizeGeneralConfig env (Some c) fonts windowBackgroundTransparencyPercent)"
proof (cases "eq_null (c windowBackgroundTransparencyPercent)
                \<or> typeof (c windowBackgroundTransparencyPercent) \<noteq> ''number''")
  case True
  then show ?thesis by (simp add: transparency_value in_range_def)
next
  case False
  then obtain n where n: "c windowBackgroundTransparencyPercent = Num n"
    using typeof_number by blast
  with assms have "n \<noteq> NaN" by simp
  then have "in_range 0 100 (Num (Math_max (Math_min (Fin 100) n) (Fin 0)))"
    by (rule clamp_max_min) simp
  with False n show ?thesis by (simp add: transparency_value)
qed

lemma uiScalePercent_range:
  "in_range 5 500 (sanitizeGeneralConfig env (Some c) fonts uiScalePercent)"
proof (cases "eq_null (c uiScalePercent) \<or> typeof (c uiScalePercent) \<noteq> ''number''")
  case True
  then show ?thesis by (simp add: uiScalePercent_value in_range_def js_or_def)
next
  case False
  then obtain n where n: "c uiScalePercent = Num n" using typeof_number by blast
  define m where "m = ToNumber (js_or (Num n) (Num (Fin 100)))"
  have "m \<noteq> NaN" by (simp add: m_def js_or_def)
  then have "in_range 5 500 (Num (Math_min (Fin 500) (Math_max (Fin 5) m)))"
    by (rule clamp_min_max) simp
  with False n show ?thesis by (simp add: uiScalePercent_value m_def)
qed

lemma missing_ranges:
  "in_range 4 1024 (sanitizeGeneralConfig env None fonts terminalFontSize)"
  "in_range 5 500 (sanitizeGeneralConfig env None fonts uiScalePercent)"
  "in_range 0 100 (sanitizeGeneralConfig env None fonts windowBackgroundTransparencyPercent)"
  using general_missing [of env fonts]
  by (simp_all add: generalConfigDefaults_def in_range_def)

lemma sanitizeField_cases:
  "sanitizeField object k d =
     (if malformed (Typed (typeof d) d) (object k) then object(k := d) else object)"
  by (simp add: sanitizeField_def assign_def)

text \<open>
  What the sanitation does where it returns. \<open>sanitizeField\<close> replaces a field that is
  null, undefined or of another \<open>typeof\<close> than the default by the default, and leaves a
  well-typed field as it is. For every stored general configuration, also a missing one, \<open>sanitizeGeneralConfig\<close>
  returns an object (it has no statement that throws) in which every field of the table that
  was malformed has its default; a field it does not write again is decided by its own rule
  alone, and a key outside the table keeps its value. \<open>sanitizeSessionConfig\<close> gives the
  empty list for a stored value that is null, undefined or not an array, and for an array of
  session configuration objects it sanitizes each object by the table, field by field, with a
  new uuid for each.
\<close>

theorem sanitation_field_by_field:
  "sanitizeField object k d =
     (if malformed (Typed (typeof d) d) (object k) then object(k := d) else object)
   \<and> (\<forall>(key, rule) \<in> set (generalConfigDefaults env).
         malformed rule (c key) \<longrightarrow>
           sanitizeGeneralConfig env (Some c) fonts key = defaultOf rule)
   \<and> (\<forall>(key, rule) \<in> set (generalConfigDefaults env).
         sanitizeGeneralConfig env None fonts key = defaultOf rule)
   \<and> (\<forall>key. key \<notin> set adjustedKeys \<longrightarrow>
         sanitizeGeneralConfig env (Some c) fonts key
           = applyDefaults (generalConfigDefaults env) c key)
   \<and> sanitizeSessionConfig createUuid n Nullish = Inr []
   \<and> sanitizeSessionConfig createUuid n NotArray = Inr []
   \<and> sanitizeSessionConfig createUuid n (ArrayOf (map Some xs))
       = Inr (map (\<lambda>(i, x). applyDefaults (sessionDefaults (createUuid i)) x) (enumerate n xs))"
proof -
  have sessions: "sanitizeSessionConfig createUuid n Nullish = Inr []"
    "sanitizeSessionConfig createUuid n NotArray = Inr []"
    "sanitizeSessionConfig createUuid n (ArrayOf (map Some xs))
       = Inr (map (\<lambda>(i, x). applyDefaults (sessionDefaults (createUuid i)) x) (enumerate n xs))"
    by (simp_all add: sanitizeSessionConfig_def session_loop)
  show ?thesis
    using sanitizeField_cases [of object k d] general_defaults [of env c fonts]
      general_missing [of env fonts] general_pure [of _ env c fonts] sessions
    by blast
qed

theorem sanitation_field_by_field_witness:
  "(terminalFontSize, Typed ''number'' (Num (Fin 13))) \<in> set (generalConfigDefaults exampleEnv)
   \<and> malformed (Typed ''number'' (Num (Fin 13))) (exampleConfig terminalFontSize)
   \<and> sanitizeGeneralConfig exampleEnv (Some exampleConfig) [] terminalFontSize = Num (Fin 13)
   \<and> blinkingCursor \<notin> set adjustedKeys
   \<and> sanitizeGeneralConfig exampleEnv (Some exampleConfig) [] blinkingCursor = Bool True
   \<and> sanitizeField exampleConfig blinkingCursor (Bool False) = exampleConfig
   \<and> sanitizeSessionConfig (\<lambda>i. ''uuid'') 0 (ArrayOf [Some exampleSession])
       = Inr [applyDefaults (sessionDefaults ''uuid'') exampleSession]"
proof -
  note all = sanitation_field_by_field
    [where object = exampleConfig and k = blinkingCursor and d = "Bool False"
       and env = exampleEnv and c = exampleConfig and fonts = "[]"
       and createUuid = "\<lambda>i. ''uuid''" and n = 0 and xs = "[exampleSession]"]
  have member: "(terminalFontSize, Typed ''number'' (Num (Fin 13)))
      \<in> set (generalConfigDefaults exampleEnv)"
    by (simp add: generalConfigDefaults_def)
  have bad: "malformed (Typed ''number'' (Num (Fin 13))) (exampleConfig terminalFontSize)"
    by (simp add: exampleConfig_def)
  have pure: "blinkingCursor \<notin> set adjustedKeys"
    by (simp add: adjustedKeys_def)
  from all member bad
  have size: "sanitizeGeneralConfig exampleEnv (Some exampleConfig) [] terminalFontSize
      = Num (Fin 13)"
    by fastforce
  from all pure
  have "sanitizeGeneralConfig exampleEnv (Some exampleConfig) [] blinkingCursor
      = applyDefaults (generalConfigDefaults exampleEnv) exampleConfig blinkingCursor"
    by blast
  then have cursor: "sanitizeGeneralConfig exampleEnv (Some exampleConfig) [] blinkingCursor
      = Bool True"
    by (simp add: applyDefaults_def generalConfigDefaults_def exampleConfig_def eq_null_def)
  from all have "sanitizeField exampleConfig blinkingCursor (Bool False) =
      (if malformed (Typed (typeof (Bool False)) (Bool False)) (exampleConfig blinkingCursor)
       then exampleConfig(blinkingCursor := Bool False) else exampleConfig)"
    by blast
  then have field: "sanitizeField exampleConfig blinkingCursor (Bool False) = exampleConfig"
    by (simp add: exampleConfig_def eq_null_def)
  from all have "sanitizeSessionConfig (\<lambda>i. ''uuid'') 0 (ArrayOf (map Some [exampleSession]))
      = Inr (map (\<lambda>(i, x). applyDefaults (sessionDefaults ''uuid'') x)
               (enumerate 0 [exampleSession]))"
    by blast
  then have session: "sanitizeSessionConfig (\<lambda>i. ''uuid'') 0 (ArrayOf [Some exampleSession])
      = Inr [applyDefaults (sessionDefaults ''uuid'') exampleSession]"
    by simp
  from member bad size pure cursor field session show ?thesis by blast
qed

text \<open>
  Claim C6. The claim is that the sanitation replaces each malformed field by its default and
  never throws or rejects the configuration as a whole. For a stored session list with a null
  element it does not hold: the value itself is tested (\<open>== null\<close>, \<open>Array.isArray\<close>),
  the elements are not, and for the null element
  \<open>sanitizeField(sessionConfiguration, "name", "")\<close> reads a property of null.
  \<open>sanitizeSessionConfig\<close> throws a \<open>TypeError\<close>, also when the other elements are
  well-formed objects, and nothing is given to \<open>setSessionConfig\<close>.
\<close>

theorem sanitizeSessionConfig_null_element_throws:
  "sanitizeSessionConfig (\<lambda>i. ''uuid'') 0 (ArrayOf [None]) = Inl TypeError
   \<and> sanitizeSessionConfig (\<lambda>i. ''uuid'') 0 (ArrayOf [Some exampleSession, None])
       = Inl TypeError"
  by (simp add: sanitizeSessionConfig_def sanitizeSessionConfiguration_def Let_def)

text \<open>
  Claim C10. The stored configuration is read from a JSON file, and no number of a JSON file
  is NaN. After \<open>sanitizeGeneralConfig\<close>, \<open>uiScalePercent\<close> is a finite number in
  [5, 500], \<open>terminalFontSize\<close> is a finite number in [4, 1024] and
  \<open>windowBackgroundTransparencyPercent\<close> one in [0, 100], whatever else the stored field
  holds: another number, an infinity, a value of another type, or nothing. The same holds
  for a missing configuration.
\<close>

theorem sanitized_numbers_in_range:
  "in_range 5 500 (sanitizeGeneralConfig env (Some c) fonts uiScalePercent)
   \<and> (c terminalFontSize \<noteq> Num NaN \<longrightarrow>
        in_range 4 1024 (sanitizeGeneralConfig env (Some c) fonts terminalFontSize))
   \<and> (c windowBackgroundTransparencyPercent \<noteq> Num NaN \<longrightarrow>
        in_range 0 100
          (sanitizeGeneralConfig env (Some c) fonts windowBackgroundTransparencyPercent))
   \<and> in_range 5 500 (sanitizeGeneralConfig env None fonts uiScalePercent)
   \<and> in_range 4 1024 (sanitizeGeneralConfig env None fonts terminalFontSize)
   \<and> in_range 0 100 (sanitizeGeneralConfig env None fonts windowBackgroundTransparencyPercent)"
  by (simp add: uiScalePercent_range terminalFontSize_range transparency_range missing_ranges)

theorem sanitized_numbers_in_range_witness:
  "exampleNumbers terminalFontSize = Num (Fin 2000)
   \<and> exampleNumbers uiScalePercent = Num (Fin 1)
   \<and> exampleNumbers windowBackgroundTransparencyPercent = Num (Fin (- 3))
   \<and> exampleNumbers terminalFontSize \<noteq> Num NaN
   \<and> exampleNumbers windowBackgroundTransparencyPercent \<noteq> Num NaN
   \<and> in_range 4 1024 (sanitizeGeneralConfig exampleEnv (Some exampleNumbers) [] terminalFontSize)
   \<and> sanitizeGeneralConfig exampleEnv (Some exampleNumbers) [] terminalFontSize
       = Num (Fin 1024)
   \<and> in_range 5 500 (sanitizeGeneralConfig exampleEnv (Some exampleNumbers) [] uiScalePercent)
   \<and> sanitizeGeneralConfig exampleEnv (Some exampleNumbers) [] uiScalePercent = Num (Fin 5)
   \<and> in_range 0 100
       (sanitizeGeneralConfig exampleEnv (Some exampleNumbers) []
          windowBackgroundTransparencyPercent)
   \<and> sanitizeGeneralConfig exampleEnv (Some exampleNumbers) []
         windowBackgroundTransparencyPercent = Num (Fin 0)"
proof -
  have stored: "exampleNumbers terminalFontSize = Num (Fin 2000)"
    "exampleNumbers uiScalePercent = Num (Fin 1)"
    "exampleNumbers windowBackgroundTransparencyPercent = Num (Fin (- 3))"
    by (simp_all add: exampleNumbers_def)
  have numbers: "exampleNumbers terminalFontSize \<noteq> Num NaN"
    "exampleNumbers windowBackgroundTransparencyPercent \<noteq> Num NaN"
    by (simp_all add: stored)
  from sanitized_numbers_in_range [of exampleEnv exampleNumbers "[]"] numbers
  have ranges:
    "in_range 4 1024 (sanitizeGeneralConfig exampleEnv (Some exampleNumbers) [] terminalFontSize)"
    "in_range 5 500 (sanitizeGeneralConfig exampleEnv (Some exampleNumbers) [] uiScalePercent)"
    "in_range 0 100
       (sanitizeGeneralConfig exampleEnv (Some exampleNumbers) []
          windowBackgroundTransparencyPercent)"
    by blast+
  have clamped:
    "sanitizeGeneralConfig exampleEnv (Some exampleNumbers) [] terminalFontSize = Num (Fin 1024)"
    "sanitizeGeneralConfig exampleEnv (Some exampleNumbers) [] uiScalePercent = Num (Fin 5)"
    "sanitizeGeneralConfig exampleEnv (Some exampleNumbers) []
       windowBackgroundTransparencyPercent = Num (Fin 0)"
    by (simp_all add: terminalFontSize_value uiScalePercent_value transparency_value stored
          eq_null_def js_or_def)
  from stored numbers ranges clamped show ?thesis by blast
qed

text \<open>
  The condition on the stored numbers is needed: \<open>typeof NaN\<close> is \<open>"number"\<close>, so
  \<open>sanitizeField\<close> would keep a NaN, and \<open>Math.min\<close> and \<open>Math.max\<close> of NaN are NaN. No
  JSON file holds one.
\<close>

lemma stored_NaN_is_kept:
  "sanitizeGeneralConfig env (Some (emptyObject(terminalFontSize := Num NaN))) fonts
     terminalFontSize = Num NaN"
  by (simp add: terminalFontSize_value eq_null_def)

end
